theory Spec2Isabelle
  imports Complex_Main
begin

section \<open>The statistics and progress engine of the fitness and nutrition backend\<close>

text \<open>
  The development embeds two route handlers: \<open>GET /api/user/stats\<close> with its helper
  \<open>calculateUserStats\<close> (src/api/user.mjs) and \<open>GET /api/progress\<close>
  (src/api/progress.mjs). Both are JavaScript around SQL statements, so the embedding has
  three layers: the calendar of PostgreSQL and of JavaScript's \<open>Date\<close>, the SQL
  statements as functions over the tables they read, and the handlers themselves with
  every rejection and \<open>catch\<close> as a branch.

  Conventions. A PostgreSQL \<open>DATE\<close> is the number of days since 1970-01-01, a
  \<open>TIMESTAMP\<close> the number of microseconds since 1970-01-01T00:00:00Z, and both the
  database session and the Node process run in UTC. SQL \<open>NULL\<close> is \<open>None\<close>.
  Numbers are rationals and integers. Where PostgreSQL or JavaScript rounds a result that
  \<open>GET /stats\<close> uses (the quotient of AVG, \<open>parseFloat\<close>), the rounding is a function
  of the platform the handler runs on, as is the order in which PostgreSQL emits rows that
  its \<open>ORDER BY\<close> leaves equal. The sums and quotients of \<open>build_response\<close> in the
  progress handler are exact.
\<close>

subsection \<open>Calendar\<close>

type_synonym pg_date = int
type_synonym pg_timestamp = int

definition usecs_per_day :: int where
  "usecs_per_day = 86400000000"

text \<open>The proleptic Gregorian calendar: year, month (1..12) and day of month of a day number.\<close>

definition civil_from_days :: "pg_date \<Rightarrow> int \<times> int \<times> int" where
  "civil_from_days z0 =
     (let z = z0 + 719468;
          era = z div 146097;
          doe = z - era * 146097;
          yoe = (doe - doe div 1460 + doe div 36524 - doe div 146096) div 365;
          doy = doe - (365 * yoe + yoe div 4 - yoe div 100);
          mp = (5 * doy + 2) div 153;
          d = doy - (153 * mp + 2) div 5 + 1;
          m = (if mp < 10 then mp + 3 else mp - 9);
          y = yoe + era * 400 + (if m \<le> 2 then 1 else 0)
      in (y, m, d))"

definition days_from_civil :: "int \<Rightarrow> int \<Rightarrow> int \<Rightarrow> pg_date" where
  "days_from_civil y0 m d =
     (let y = (if m \<le> 2 then y0 - 1 else y0);
          era = y div 400;
          yoe = y - era * 400;
          doy = (153 * (if m > 2 then m - 3 else m + 9) + 2) div 5 + d - 1;
          doe = yoe * 365 + yoe div 4 - yoe div 100 + doy
      in era * 146097 + doe - 719468)"

definition year_of :: "pg_date \<Rightarrow> int" where
  "year_of d = fst (civil_from_days d)"

definition month_of :: "pg_date \<Rightarrow> int" where
  "month_of d = fst (snd (civil_from_days d))"

definition mday_of :: "pg_date \<Rightarrow> int" where
  "mday_of d = snd (snd (civil_from_days d))"

text \<open>Day of the week, Sunday = 0; 1970-01-01 was a Thursday.\<close>

definition weekday_of :: "pg_date \<Rightarrow> int" where
  "weekday_of d = (d + 4) mod 7"

definition is_leap :: "int \<Rightarrow> bool" where
  "is_leap y = (y mod 4 = 0 \<and> (y mod 100 \<noteq> 0 \<or> y mod 400 = 0))"

definition days_in_month :: "int \<Rightarrow> int \<Rightarrow> int" where
  "days_in_month y m =
     (if m = 2 then (if is_leap y then 29 else 28)
      else if m = 4 \<or> m = 6 \<or> m = 9 \<or> m = 11 then 30 else 31)"

text \<open>\<open>date::date\<close> on a timestamp: the day it falls on.\<close>

definition date_of_timestamp :: "pg_timestamp \<Rightarrow> pg_date" where
  "date_of_timestamp t = t div usecs_per_day"

text \<open>A \<open>DATE\<close> compared with a timestamp is first cast to midnight of that day.\<close>

definition timestamp_of_date :: "pg_date \<Rightarrow> pg_timestamp" where
  "timestamp_of_date d = d * usecs_per_day"

text \<open>\<open>t - INTERVAL 'n days'\<close>.\<close>

definition minus_days :: "pg_timestamp \<Rightarrow> int \<Rightarrow> pg_timestamp" where
  "minus_days t n = t - n * usecs_per_day"

text \<open>
  \<open>t - INTERVAL 'n months'\<close>: the month field goes back by \<open>n\<close>, the day of month is
  cut to the length of the month reached, the time of day stays.
\<close>

definition minus_months :: "pg_timestamp \<Rightarrow> int \<Rightarrow> pg_timestamp" where
  "minus_months t n =
     (let day = t div usecs_per_day;
          tod = t mod usecs_per_day;
          y = year_of day;
          k = y * 12 + (month_of day - 1) - n;
          y' = k div 12;
          m' = k mod 12 + 1;
          d' = min (mday_of day) (days_in_month y' m')
      in days_from_civil y' m' d' * usecs_per_day + tod)"

subsection \<open>The event store\<close>

text \<open>
  The tables as \<open>initDatabase\<close> (src/config/database.mjs) declares them, with the
  columns the two handlers read. \<open>user_id\<close>, \<open>workout_id\<close>, \<open>weight\<close>, \<open>calories\<close>,
  \<open>protein\<close>, \<open>carbs\<close> and \<open>fats\<close> carry no \<open>NOT NULL\<close>.
\<close>

record workout_log =
  wl_id :: int
  wl_user_id :: "int option"
  wl_date :: pg_date
  wl_duration :: int

record workout_exercise =
  we_workout_id :: "int option"
  we_exercise_name :: string
  we_weight :: "rat option"

text \<open>
  \<open>food_logs\<close> has the two timestamps \<open>logged_at\<close> and \<open>created_at\<close>, both with a
  default and without \<open>NOT NULL\<close>, and no column named \<open>date\<close>; the one \<open>INSERT\<close> of
  the repository sets \<open>logged_at\<close>.
\<close>

record food_log =
  fl_user_id :: "int option"
  fl_calories :: "int option"
  fl_protein :: "rat option"
  fl_carbs :: "rat option"
  fl_fats :: "rat option"
  fl_logged_at :: "pg_timestamp option"
  fl_created_at :: "pg_timestamp option"

text \<open>
  A name that a statement on \<open>food_logs\<close> uses as a timestamp (\<open>name::date\<close>,
  \<open>name >= NOW() - INTERVAL ...\<close>) is the column of that name. For \<open>date\<close>, which both
  nutrition statements use, there is none: PostgreSQL rejects the statement (undefined
  column) before it reads a row.
\<close>

definition food_logs_timestamp :: "string \<Rightarrow> (food_log \<Rightarrow> pg_timestamp option) option" where
  "food_logs_timestamp name =
     (if name = ''logged_at'' then Some fl_logged_at
      else if name = ''created_at'' then Some fl_created_at
      else None)"

text \<open>Every call the handlers make on the pool or on a client.\<close>

datatype store_op =
    Connect
  | TablesExist
  | ProgressWorkouts
  | ProgressNutrition
  | StatsTotal
  | StatsStreak
  | StatsCalories
  | StatsMonthly
  | StatsTopExercises

text \<open>
  What a call can throw: the pool or a statement rejecting, and the \<open>RangeError\<close> of
  \<open>toISOString\<close> on an invalid \<open>Date\<close>.
\<close>

datatype exception = ConnectionError | QueryError store_op | RangeError

text \<open>\<open>await\<close> in sequence: the first rejection ends the block.\<close>

definition and_then :: "exception + 'a \<Rightarrow> ('a \<Rightarrow> exception + 'b) \<Rightarrow> exception + 'b" where
  "and_then r f = (case r of Inl e \<Rightarrow> Inl e | Inr v \<Rightarrow> f v)"

text \<open>
  The store: each table (\<open>None\<close> when it does not exist) and the calls that fail for a
  reason outside the tables (server unreachable, statement rejected).
\<close>

record database =
  workout_logs :: "workout_log list option"
  workout_exercises :: "workout_exercise list option"
  food_logs :: "food_log list option"
  faults :: "store_op \<Rightarrow> bool"

text \<open>
  \<open>NOW()\<close> as each statement reads it (every statement is its own transaction), and
  \<open>new Date()\<close> of the Node process in milliseconds.
\<close>

record clock =
  db_now :: "store_op \<Rightarrow> pg_timestamp"
  js_now :: int

definition pool_connect :: "database \<Rightarrow> exception + unit" where
  "pool_connect db = (if faults db Connect then Inl ConnectionError else Inr ())"

text \<open>A statement over one table: it fails when the call is faulty or the table is missing.\<close>

definition client_query ::
  "database \<Rightarrow> store_op \<Rightarrow> 't option \<Rightarrow> ('t \<Rightarrow> 'r) \<Rightarrow> exception + 'r" where
  "client_query db op table stmt =
     (if faults db op then Inl (QueryError op)
      else case table of None \<Rightarrow> Inl (QueryError op) | Some t \<Rightarrow> Inr (stmt t))"

text \<open>
  A statement over \<open>food_logs\<close> that uses \<open>name\<close> as a timestamp: it fails as any
  statement does, and when the table has no such column.
\<close>

definition food_query ::
  "database \<Rightarrow> store_op \<Rightarrow> string \<Rightarrow> ((food_log \<Rightarrow> pg_timestamp option) \<Rightarrow> food_log list \<Rightarrow> 'r)
     \<Rightarrow> exception + 'r" where
  "food_query db op name stmt =
     (if faults db op then Inl (QueryError op)
      else case food_logs db of
             None \<Rightarrow> Inl (QueryError op)
           | Some fl \<Rightarrow>
               (case food_logs_timestamp name of
                  None \<Rightarrow> Inl (QueryError op)
                | Some column \<Rightarrow> Inr (stmt column fl)))"

text \<open>
  What the platform decides and the source does not: the rounding of a \<open>numeric\<close>
  division (dividend, divisor) to the scale of its result, the double that
  \<open>parseFloat\<close> reads from a decimal numeral, and the order in which the groups of a
  \<open>GROUP BY\<close> reach the sort.
\<close>

record platform =
  numeric_div :: "rat \<Rightarrow> rat \<Rightarrow> rat"
  parseFloat :: "rat \<Rightarrow> rat"
  emit_order :: "string list \<Rightarrow> string list"

subsection \<open>SQL aggregates\<close>

text \<open>\<open>SUM\<close> skips NULLs and is NULL when nothing is left; so is \<open>AVG\<close>.\<close>

definition non_null :: "'a option list \<Rightarrow> 'a list" where
  "non_null xs = map the (filter (\<lambda>x. x \<noteq> None) xs)"

definition sql_sum :: "('a::comm_monoid_add) option list \<Rightarrow> 'a option" where
  "sql_sum xs = (if non_null xs = [] then None else Some (sum_list (non_null xs)))"

definition sql_avg :: "platform \<Rightarrow> rat option list \<Rightarrow> rat option" where
  "sql_avg pf xs =
     (if non_null xs = [] then None
      else Some (numeric_div pf (sum_list (non_null xs)) (of_nat (length (non_null xs)))))"

definition of_user :: "('r \<Rightarrow> int option) \<Rightarrow> int \<Rightarrow> 'r list \<Rightarrow> 'r list" where
  "of_user uid_of userId rows = filter (\<lambda>r. uid_of r = Some userId) rows"

subsection \<open>The statements of calculateUserStats\<close>

text \<open>\<open>SELECT COUNT(*) FROM workout_logs WHERE user_id = $1\<close>\<close>

definition total_workouts_sql :: "int \<Rightarrow> workout_log list \<Rightarrow> int" where
  "total_workouts_sql userId wl = int (length (of_user wl_user_id userId wl))"

text \<open>
  The streak statement.
  \<^verbatim>\<open>
  WITH consecutive_days AS (
    SELECT date, date - (ROW_NUMBER() OVER (ORDER BY date))::integer AS grp
    FROM (SELECT DISTINCT date::date FROM workout_logs WHERE user_id = $1) d)
  SELECT COUNT(*) + 1 AS streak
  FROM (SELECT grp, COUNT(*) AS days FROM consecutive_days
        GROUP BY grp ORDER BY COUNT(*) DESC LIMIT 1) s\<close>
\<close>

definition distinct_dates :: "int \<Rightarrow> workout_log list \<Rightarrow> pg_date list" where
  "distinct_dates userId wl = remdups (map wl_date (of_user wl_user_id userId wl))"

definition consecutive_days :: "pg_date list \<Rightarrow> (pg_date \<times> pg_date) list" where
  "consecutive_days ds =
     map (\<lambda>(i, d). (d, d - int (Suc i))) (enumerate 0 (sort ds))"

definition grp_days :: "(pg_date \<times> pg_date) list \<Rightarrow> (pg_date \<times> int) list" where
  "grp_days cd =
     map (\<lambda>g. (g, int (length (filter (\<lambda>r. snd r = g) cd)))) (remdups (map snd cd))"

definition longest_grp :: "(pg_date \<times> int) list \<Rightarrow> (pg_date \<times> int) list" where
  "longest_grp gs = take 1 (sort_key (\<lambda>g. - snd g) gs)"

definition streak_sql :: "int \<Rightarrow> workout_log list \<Rightarrow> int" where
  "streak_sql userId wl =
     int (length (longest_grp (grp_days (consecutive_days (distinct_dates userId wl))))) + 1"

text \<open>
  \<^verbatim>\<open>
  SELECT AVG(daily_calories) as avg_calories
  FROM (SELECT date::date, SUM(calories) as daily_calories
        FROM food_logs WHERE user_id = $1 GROUP BY date::date) daily\<close>
\<close>

text \<open>The day of a row under the column the statement groups on; NULL stays NULL.\<close>

definition day_under :: "(food_log \<Rightarrow> pg_timestamp option) \<Rightarrow> food_log \<Rightarrow> pg_date option" where
  "day_under column f = map_option date_of_timestamp (column f)"

definition daily_calories ::
  "(food_log \<Rightarrow> pg_timestamp option) \<Rightarrow> int \<Rightarrow> food_log list \<Rightarrow> (pg_date option \<times> int option) list" where
  "daily_calories column userId fl =
     map (\<lambda>d. (d, sql_sum (map fl_calories
                          (filter (\<lambda>f. day_under column f = d) (of_user fl_user_id userId fl)))))
         (remdups (map (day_under column) (of_user fl_user_id userId fl)))"

definition avg_calories_sql ::
  "platform \<Rightarrow> (food_log \<Rightarrow> pg_timestamp option) \<Rightarrow> int \<Rightarrow> food_log list \<Rightarrow> rat option" where
  "avg_calories_sql pf column userId fl =
     sql_avg pf (map (\<lambda>(d, c). map_option of_int c) (daily_calories column userId fl))"

text \<open>
  \<^verbatim>\<open>
  SELECT EXTRACT(MONTH FROM date) as month, COUNT(DISTINCT date) as active_days,
         COUNT(*) as total_workouts, SUM(duration) as total_duration
  FROM workout_logs
  WHERE user_id = $1 AND date >= NOW() - INTERVAL '6 months'
  GROUP BY EXTRACT(MONTH FROM date)
  ORDER BY month DESC\<close>
\<close>

record monthly_row =
  month :: int
  active_days :: int
  total_workouts :: int
  total_duration :: int

definition monthly_row_of :: "workout_log list \<Rightarrow> int \<Rightarrow> monthly_row" where
  "monthly_row_of rows m =
     (let g = filter (\<lambda>w. month_of (wl_date w) = m) rows
      in \<lparr>month = m,
          active_days = int (length (remdups (map wl_date g))),
          total_workouts = int (length g),
          total_duration = sum_list (map wl_duration g)\<rparr>)"

definition monthly_stats_sql :: "pg_timestamp \<Rightarrow> int \<Rightarrow> workout_log list \<Rightarrow> monthly_row list" where
  "monthly_stats_sql now userId wl =
     (let rows = filter (\<lambda>w. timestamp_of_date (wl_date w) \<ge> minus_months now 6)
                   (of_user wl_user_id userId wl)
      in map (monthly_row_of rows) (rev (sort (remdups (map (\<lambda>w. month_of (wl_date w)) rows)))))"

text \<open>
  \<^verbatim>\<open>
  SELECT exercise_name, COUNT(*) as times_performed, AVG(COALESCE(weight, 0)) as avg_weight
  FROM workout_exercises we JOIN workout_logs wl ON we.workout_id = wl.id
  WHERE wl.user_id = $1
  GROUP BY exercise_name ORDER BY times_performed DESC LIMIT 5\<close>
  SQL leaves the order among equal counts open: the groups reach the sort in the order
  the platform emits them, and the sort keeps that order among equal counts.
\<close>

record exercise_row =
  exercise_name :: string
  times_performed :: int
  avg_weight :: rat

definition joined_exercises ::
  "int \<Rightarrow> workout_log list \<Rightarrow> workout_exercise list \<Rightarrow> workout_exercise list" where
  "joined_exercises userId wl we =
     concat (map (\<lambda>e. map (\<lambda>w. e)
                    (filter (\<lambda>w. we_workout_id e = Some (wl_id w) \<and> wl_user_id w = Some userId) wl))
                 we)"

definition coalesce :: "'a option \<Rightarrow> 'a \<Rightarrow> 'a" where
  "coalesce x d = (case x of None \<Rightarrow> d | Some v \<Rightarrow> v)"

definition exercise_row_of :: "platform \<Rightarrow> workout_exercise list \<Rightarrow> string \<Rightarrow> exercise_row" where
  "exercise_row_of pf rows n =
     \<lparr>exercise_name = n,
      times_performed = int (length (filter (\<lambda>e. we_exercise_name e = n) rows)),
      avg_weight =
        numeric_div pf
          (sum_list (map (\<lambda>e. coalesce (we_weight e) 0)
                       (filter (\<lambda>e. we_exercise_name e = n) rows)))
          (of_nat (length (filter (\<lambda>e. we_exercise_name e = n) rows)))\<rparr>"

definition top_exercises_sql ::
  "platform \<Rightarrow> int \<Rightarrow> workout_log list \<Rightarrow> workout_exercise list \<Rightarrow> exercise_row list" where
  "top_exercises_sql pf userId wl we =
     take 5 (sort_key (\<lambda>r. - times_performed r)
               (map (exercise_row_of pf (joined_exercises userId wl we))
                    (emit_order pf (remdups (map we_exercise_name (joined_exercises userId wl we))))))"

subsection \<open>calculateUserStats and the route GET /stats\<close>

record stats =
  totalWorkouts :: int
  streak :: int
  avgCalories :: rat
  monthlyStats :: "monthly_row list"
  topExercises :: "exercise_row list"
  lastUpdated :: int

text \<open>
  \<open>calculateUserStats\<close> takes a client before its \<open>try\<close>, runs the five statements in
  order and has a \<open>finally\<close> but no \<open>catch\<close>: the first error leaves the function.
  The third statement groups \<open>food_logs\<close> on \<open>date\<close>.
  \<open>parseFloat(caloriesResult.rows[0]?.avg_calories || 0)\<close> reads a NULL average as 0.
\<close>

definition calculateUserStats ::
  "database \<Rightarrow> platform \<Rightarrow> clock \<Rightarrow> int \<Rightarrow> exception + stats" where
  "calculateUserStats db pf clk userId =
     and_then (pool_connect db) (\<lambda>client.
     and_then (client_query db StatsTotal (workout_logs db) (total_workouts_sql userId))
       (\<lambda>workoutResult.
     and_then (client_query db StatsStreak (workout_logs db) (streak_sql userId))
       (\<lambda>streakResult.
     and_then (food_query db StatsCalories ''date'' (\<lambda>column. avg_calories_sql pf column userId))
       (\<lambda>caloriesResult.
     and_then (client_query db StatsMonthly (workout_logs db)
                 (monthly_stats_sql (db_now clk StatsMonthly) userId))
       (\<lambda>monthly.
     and_then (client_query db StatsTopExercises
                 (case workout_logs db of None \<Rightarrow> None
                  | Some wl \<Rightarrow> map_option (Pair wl) (workout_exercises db))
                 (\<lambda>(wl, we). top_exercises_sql pf userId wl we))
       (\<lambda>exercises.
     Inr \<lparr>totalWorkouts = workoutResult,
          streak = streakResult,
          avgCalories = (case caloriesResult of None \<Rightarrow> 0 | Some avg \<Rightarrow> parseFloat pf avg),
          monthlyStats = monthly,
          topExercises = exercises,
          lastUpdated = js_now clk\<rparr>))))))"

text \<open>
  What a handler does with a request: it sends a JSON body with status 200, it sends
  status 500 with a message, or it sends nothing because its promise was rejected outside
  every \<open>try\<close> of its own.
\<close>

datatype 'a outcome = Json 'a | Status500 string | Rejected exception

definition get_stats :: "database \<Rightarrow> platform \<Rightarrow> clock \<Rightarrow> int \<Rightarrow> stats outcome" where
  "get_stats db pf clk userId =
     (case calculateUserStats db pf clk userId of
        Inl e \<Rightarrow> Status500 ''Error fetching user stats''
      | Inr s \<Rightarrow> Json s)"

subsection \<open>JavaScript values of the progress handler\<close>

text \<open>
  node-postgres hands a \<open>DATE\<close> column over as a \<open>Date\<close> object, one new object per
  row; the handler calls \<open>toISOString()\<close> on \<open>row.date\<close>. An object is its identity
  together with its time value; the time value is kept as the day number (midnight UTC of
  that day), and the object is invalid beyond 100,000,000 days from the epoch.
\<close>

datatype js_date = JsDate (date_ref: nat) (date_day: pg_date)

definition js_valid :: "js_date \<Rightarrow> bool" where
  "js_valid d = (\<bar>date_day d\<bar> \<le> 100000000)"

text \<open>The driver builds the rows of a result: the i-th row gets the object \<open>base + i\<close>.\<close>

definition parse_rows :: "nat \<Rightarrow> (pg_date \<times> 'a) list \<Rightarrow> (js_date \<times> 'a) list" where
  "parse_rows base rows = map (\<lambda>(i, (d, r)). (JsDate i d, r)) (enumerate base rows)"

definition digit :: "nat \<Rightarrow> char" where
  "digit n = ''0123456789'' ! (n mod 10)"

fun decimal :: "nat \<Rightarrow> string" where
  "decimal n = (if n < 10 then [digit n] else decimal (n div 10) @ [digit n])"

declare decimal.simps [simp del]

definition padStart :: "nat \<Rightarrow> string \<Rightarrow> string" where
  "padStart k s = replicate (k - length s) (CHR ''0'') @ s"

definition two_digits :: "int \<Rightarrow> string" where
  "two_digits n = padStart 2 (decimal (nat n))"

text \<open>
  \<open>d.toISOString().split("T")[0]\<close> on a valid date: four digits for the years 0 to 9999,
  a sign and six digits otherwise.
\<close>

definition iso_year :: "int \<Rightarrow> string" where
  "iso_year y =
     (if 0 \<le> y \<and> y \<le> 9999 then padStart 4 (decimal (nat y))
      else (if y < 0 then ''-'' else ''+'') @ padStart 6 (decimal (nat \<bar>y\<bar>)))"

definition toISOString_day :: "js_date \<Rightarrow> string" where
  "toISOString_day d =
     iso_year (year_of (date_day d)) @ ''-'' @ two_digits (month_of (date_day d)) @ ''-'' @
     two_digits (mday_of (date_day d))"

text \<open>\<open>String(d)\<close>, which the default comparator of \<open>sort\<close> applies to its elements.\<close>

definition day_name :: "int \<Rightarrow> string" where
  "day_name w = [''Sun'', ''Mon'', ''Tue'', ''Wed'', ''Thu'', ''Fri'', ''Sat''] ! nat w"

definition month_name :: "int \<Rightarrow> string" where
  "month_name m =
     [''Jan'', ''Feb'', ''Mar'', ''Apr'', ''May'', ''Jun'',
      ''Jul'', ''Aug'', ''Sep'', ''Oct'', ''Nov'', ''Dec''] ! nat (m - 1)"

definition toString_year :: "int \<Rightarrow> string" where
  "toString_year y = (if y < 0 then ''-'' else []) @ padStart 4 (decimal (nat \<bar>y\<bar>))"

definition toString :: "js_date \<Rightarrow> string" where
  "toString d =
     (if js_valid d
      then day_name (weekday_of (date_day d)) @ '' '' @ month_name (month_of (date_day d)) @
           '' '' @ two_digits (mday_of (date_day d)) @ '' '' @
           toString_year (year_of (date_day d)) @
           '' 00:00:00 GMT+0000 (Coordinated Universal Time)''
      else ''Invalid Date'')"

text \<open>Strings compare by code unit, a proper prefix first.\<close>

fun string_less :: "string \<Rightarrow> string \<Rightarrow> bool" where
  "string_less [] [] = False"
| "string_less [] (y # ys) = True"
| "string_less (x # xs) [] = False"
| "string_less (x # xs) (y # ys) =
     (if (of_char x :: nat) < of_char y then True
      else if (of_char y :: nat) < of_char x then False
      else string_less xs ys)"

text \<open>
  \<open>Array.prototype.sort()\<close> without a comparator: stable, ascending in the string of
  each element.
\<close>

fun sort_insert :: "js_date \<Rightarrow> js_date list \<Rightarrow> js_date list" where
  "sort_insert x [] = [x]"
| "sort_insert x (y # ys) =
     (if string_less (toString y) (toString x) then y # sort_insert x ys else x # y # ys)"

definition js_sort :: "js_date list \<Rightarrow> js_date list" where
  "js_sort xs = foldr sort_insert xs []"

text \<open>
  \<open>[...new Set(xs)]\<close>: the elements in the order of their first insertion, an element
  being dropped when the same value is already in the set. Two objects are the same value
  when they are the same object.
\<close>

fun new_Set :: "'a list \<Rightarrow> 'a list" where
  "new_Set [] = []"
| "new_Set (x # xs) = x # filter (\<lambda>y. y \<noteq> x) (new_Set xs)"

subsection \<open>The statements of the progress handler\<close>

text \<open>\<open>req.query.range\<close>: absent, a string, or an array or object built by the query parser.\<close>

datatype query_value = Absent | Text string | Structured

text \<open>
  The \<open>switch\<close> on \<open>range\<close> (with the default \<open>"month"\<close> of the destructuring). Each
  branch is the SQL fragment \<open>AND date >= NOW() - INTERVAL 'n days'\<close>; the result is its n.
\<close>

definition timeFilter :: "query_value \<Rightarrow> int" where
  "timeFilter range_value =
     (let r = (case range_value of Absent \<Rightarrow> Text ''month'' | v \<Rightarrow> v)
      in if r = Text ''week'' then 7
         else if r = Text ''month'' then 30
         else if r = Text ''year'' then 365
         else 30)"

text \<open>
  \<^verbatim>\<open>
  SELECT EXISTS (SELECT FROM information_schema.tables WHERE table_name = 'workout_logs')
           as workout_exists,
         EXISTS (SELECT FROM information_schema.tables WHERE table_name = 'food_logs')
           as food_exists\<close>
\<close>

definition tables_exist_sql :: "database \<Rightarrow> unit \<Rightarrow> bool \<times> bool" where
  "tables_exist_sql db u = (workout_logs db \<noteq> None, food_logs db \<noteq> None)"

text \<open>
  \<^verbatim>\<open>
  SELECT date::date, COUNT(*) as workout_count, SUM(duration) as total_duration
  FROM workout_logs WHERE user_id = $1 AND date >= NOW() - INTERVAL 'n days'
  GROUP BY date::date ORDER BY date::date\<close>
\<close>

definition progress_workouts_sql ::
  "pg_timestamp \<Rightarrow> int \<Rightarrow> int \<Rightarrow> workout_log list \<Rightarrow> (pg_date \<times> int \<times> int) list" where
  "progress_workouts_sql now n userId wl =
     (let rows = filter (\<lambda>w. timestamp_of_date (wl_date w) \<ge> minus_days now n)
                   (of_user wl_user_id userId wl)
      in map (\<lambda>d. let g = filter (\<lambda>w. wl_date w = d) rows
                   in (d, int (length g), sum_list (map wl_duration g)))
             (sort (remdups (map wl_date rows))))"

text \<open>
  \<^verbatim>\<open>
  SELECT date::date, SUM(calories) as total_calories, SUM(protein) as total_protein,
         SUM(carbs) as total_carbs, SUM(fats) as total_fats
  FROM food_logs WHERE user_id = $1 AND date >= NOW() - INTERVAL 'n days'
  GROUP BY date::date ORDER BY date::date\<close>
\<close>

record nutrition_totals =
  total_calories :: "int option"
  total_protein :: "rat option"
  total_carbs :: "rat option"
  total_fats :: "rat option"

definition progress_nutrition_sql ::
  "(food_log \<Rightarrow> pg_timestamp option) \<Rightarrow> pg_timestamp \<Rightarrow> int \<Rightarrow> int \<Rightarrow> food_log list
     \<Rightarrow> (pg_date \<times> nutrition_totals) list" where
  "progress_nutrition_sql column now n userId fl =
     (let rows = filter (\<lambda>f. case column f of None \<Rightarrow> False | Some t \<Rightarrow> t \<ge> minus_days now n)
                   (of_user fl_user_id userId fl)
      in map (\<lambda>d. let g = filter (\<lambda>f. day_under column f = Some d) rows
                   in (d, \<lparr>total_calories = sql_sum (map fl_calories g),
                           total_protein = sql_sum (map fl_protein g),
                           total_carbs = sql_sum (map fl_carbs g),
                           total_fats = sql_sum (map fl_fats g)\<rparr>))
             (sort (remdups (concat (map (\<lambda>f. case day_under column f of
                                              None \<Rightarrow> [] | Some d \<Rightarrow> [d]) rows)))))"

subsection \<open>The route GET /api/progress\<close>

record workouts_series =
  workouts_dates :: "string list"
  durations :: "int list"
  counts :: "int list"

record nutrition_series =
  nutrition_dates :: "string list"
  calories :: "int list"
  protein :: "rat list"
  carbs :: "rat list"
  fats :: "rat list"

record metrics =
  metrics_totalWorkouts :: int
  avgDuration :: rat
  totalCalories :: int
  metrics_avgCalories :: rat

record progress =
  workouts :: workouts_series
  nutrition :: nutrition_series
  metrics :: metrics

text \<open>The literal the handler sends in three places.\<close>

definition empty_progress :: progress where
  "empty_progress =
     \<lparr>workouts = \<lparr>workouts_dates = [], durations = [], counts = []\<rparr>,
      nutrition = \<lparr>nutrition_dates = [], calories = [], protein = [], carbs = [], fats = []\<rparr>,
      metrics = \<lparr>metrics_totalWorkouts = 0, avgDuration = 0, totalCalories = 0,
                 metrics_avgCalories = 0\<rparr>\<rparr>"

text \<open>
  \<open>parseInt(x || 0)\<close>, \<open>parseInt(x) || 0\<close> and \<open>parseFloat(x) || 0\<close> on a column that is
  a numeric string or null all read null as 0.
\<close>

definition calc_metrics ::
  "(js_date \<times> int \<times> int) list \<Rightarrow> (js_date \<times> nutrition_totals) list \<Rightarrow> metrics" where
  "calc_metrics wrows nrows =
     \<lparr>metrics_totalWorkouts = sum_list (map (\<lambda>(d, c, t). c) wrows),
      avgDuration = (if length wrows \<noteq> 0
                     then of_int (sum_list (map (\<lambda>(d, c, t). t) wrows)) / of_nat (length wrows)
                     else 0),
      totalCalories = sum_list (map (\<lambda>(d, n). coalesce (total_calories n) 0) nrows),
      metrics_avgCalories =
        (if length nrows \<noteq> 0
         then of_int (sum_list (map (\<lambda>(d, n). coalesce (total_calories n) 0) nrows))
              / of_nat (length nrows)
         else 0)\<rparr>"

text \<open>
  \<open>rows.find((r) => r.date.toISOString().split("T")[0] === date.toISOString().split("T")[0])\<close>
\<close>

definition find_row :: "(js_date \<times> 'a) list \<Rightarrow> js_date \<Rightarrow> (js_date \<times> 'a) option" where
  "find_row rows date = find (\<lambda>r. toISOString_day (fst r) = toISOString_day date) rows"

definition shared_dates ::
  "(js_date \<times> int \<times> int) list \<Rightarrow> (js_date \<times> nutrition_totals) list \<Rightarrow> js_date list" where
  "shared_dates wrows nrows = js_sort (new_Set (map fst wrows @ map fst nrows))"

text \<open>
  The response object. Its first property calls \<open>toISOString\<close> on every element of
  \<open>dates\<close>, which throws on the first invalid one; every later call is on one of the
  same objects.
\<close>

definition build_response ::
  "(js_date \<times> int \<times> int) list \<Rightarrow> (js_date \<times> nutrition_totals) list \<Rightarrow> exception + progress" where
  "build_response wrows nrows =
     (let dates = shared_dates wrows nrows
      in if \<not> list_all js_valid dates then Inl RangeError
         else Inr
           \<lparr>workouts =
              \<lparr>workouts_dates = map toISOString_day dates,
               durations = map (\<lambda>date. case find_row wrows date of
                                   None \<Rightarrow> 0 | Some (d, c, t) \<Rightarrow> t) dates,
               counts = map (\<lambda>date. case find_row wrows date of
                                None \<Rightarrow> 0 | Some (d, c, t) \<Rightarrow> c) dates\<rparr>,
            nutrition =
              \<lparr>nutrition_dates = map toISOString_day dates,
               calories = map (\<lambda>date. case find_row nrows date of
                                  None \<Rightarrow> 0 | Some (d, n) \<Rightarrow> coalesce (total_calories n) 0) dates,
               protein = map (\<lambda>date. case find_row nrows date of
                                 None \<Rightarrow> 0 | Some (d, n) \<Rightarrow> coalesce (total_protein n) 0) dates,
               carbs = map (\<lambda>date. case find_row nrows date of
                               None \<Rightarrow> 0 | Some (d, n) \<Rightarrow> coalesce (total_carbs n) 0) dates,
               fats = map (\<lambda>date. case find_row nrows date of
                              None \<Rightarrow> 0 | Some (d, n) \<Rightarrow> coalesce (total_fats n) 0) dates\<rparr>,
            metrics = calc_metrics wrows nrows\<rparr>)"

text \<open>The body of the \<open>try\<close>.\<close>

definition progress_try :: "database \<Rightarrow> clock \<Rightarrow> int \<Rightarrow> query_value \<Rightarrow> exception + progress" where
  "progress_try db clk userId range_value =
     and_then (client_query db TablesExist (Some ()) (tables_exist_sql db))
       (\<lambda>(workout_exists, food_exists).
     if \<not> workout_exists \<or> \<not> food_exists then Inr empty_progress
     else
     and_then (client_query db ProgressWorkouts (workout_logs db)
                 (progress_workouts_sql (db_now clk ProgressWorkouts) (timeFilter range_value) userId))
       (\<lambda>w.
     and_then (food_query db ProgressNutrition ''date''
                 (\<lambda>column. progress_nutrition_sql column (db_now clk ProgressNutrition)
                              (timeFilter range_value) userId))
       (\<lambda>n.
     if length w = 0 \<and> length n = 0 then Inr empty_progress
     else build_response (parse_rows 0 w) (parse_rows (length w) n))))"

text \<open>
  The handler: \<open>const client = await pool.connect()\<close> stands before the \<open>try\<close>, so a
  rejected connection rejects the handler; the \<open>catch\<close> answers every error of the body
  with the empty structure. The nutrition statement filters and groups \<open>food_logs\<close> on
  \<open>date\<close>.
\<close>

definition get_progress :: "database \<Rightarrow> clock \<Rightarrow> int \<Rightarrow> query_value \<Rightarrow> progress outcome" where
  "get_progress db clk userId range_value =
     (case pool_connect db of
        Inl e \<Rightarrow> Rejected e
      | Inr client \<Rightarrow>
          (case progress_try db clk userId range_value of
             Inl error \<Rightarrow> Json empty_progress
           | Inr response \<Rightarrow> Json response))"

subsection \<open>Example stores\<close>

text \<open>
  The database as \<open>initDatabase\<close> creates it, holding the given rows, with every call
  reaching it; and one whose pool cannot connect.
\<close>

definition database_of :: "workout_log list \<Rightarrow> workout_exercise list \<Rightarrow> food_log list \<Rightarrow> database" where
  "database_of wl we fl =
     \<lparr>workout_logs = Some wl, workout_exercises = Some we, food_logs = Some fl,
      faults = (\<lambda>op. False)\<rparr>"

definition unreachable :: database where
  "unreachable =
     \<lparr>workout_logs = Some [], workout_exercises = Some [], food_logs = Some [],
      faults = (\<lambda>op. op = Connect)\<rparr>"

definition workout :: "int \<Rightarrow> int \<Rightarrow> pg_date \<Rightarrow> int \<Rightarrow> workout_log" where
  "workout i u d m = \<lparr>wl_id = i, wl_user_id = Some u, wl_date = d, wl_duration = m\<rparr>"

text \<open>A row as \<open>POST /log\<close> writes it: both timestamps are the time of the insert.\<close>

definition meal :: "int \<Rightarrow> pg_timestamp \<Rightarrow> int \<Rightarrow> food_log" where
  "meal u t kcal =
     \<lparr>fl_user_id = Some u, fl_calories = Some kcal, fl_protein = Some 0, fl_carbs = Some 0,
      fl_fats = Some 0, fl_logged_at = Some t, fl_created_at = Some t\<rparr>"

definition at_time :: "pg_timestamp \<Rightarrow> int \<Rightarrow> clock" where
  "at_time t ms = \<lparr>db_now = (\<lambda>op. t), js_now = ms\<rparr>"

text \<open>User 7 logs 1200 kcal at 08:00 and 800 kcal at 20:00 on 2024-01-01 (day 19723).\<close>

definition two_meals :: "food_log list" where
  "two_meals = [meal 7 1704096000000000 1200, meal 7 1704139200000000 800]"

text \<open>
  Workouts of user 7 on 2024-01-01, 2024-01-02, 2024-01-03 and 2024-01-10
  (days 19723, 19724, 19725 and 19732).
\<close>

definition streak_workouts :: "workout_log list" where
  "streak_workouts =
     [workout 1 7 19723 30, workout 2 7 19724 30, workout 3 7 19725 30, workout 4 7 19732 30]"

text \<open>Workouts of user 7 on 2024-12-15 (day 20072) and on 2025-01-15 (day 20103).\<close>

definition new_year_workouts :: "workout_log list" where
  "new_year_workouts = [workout 1 7 20072 30, workout 2 7 20103 45]"

text \<open>
  The example of the series aligner: workouts on 2024-01-01 and 2024-01-02, meals at noon
  of 2024-01-02 and of 2024-01-03.
\<close>

definition aligner_workouts :: "workout_log list" where
  "aligner_workouts = [workout 1 7 19723 30, workout 2 7 19724 45]"

definition aligner_meals :: "food_log list" where
  "aligner_meals = [meal 7 1704196800000000 500, meal 7 1704283200000000 700]"

text \<open>
  A workout and a meal of user 7 on the same day, 2024-01-02; and two workouts, on
  Monday 2024-01-01 and on Friday 2024-01-05 (day 19727).
\<close>

definition same_day_workouts :: "workout_log list" where
  "same_day_workouts = [workout 1 7 19724 45]"

definition same_day_meals :: "food_log list" where
  "same_day_meals = [meal 7 1704196800000000 500]"

definition monday_friday_workouts :: "workout_log list" where
  "monday_friday_workouts = [workout 1 7 19723 30, workout 2 7 19727 60]"

text \<open>Rows of a nutrition result with calories only, as \<open>build_response\<close> would take them.\<close>

definition no_macros :: "int option \<Rightarrow> nutrition_totals" where
  "no_macros kcal =
     \<lparr>total_calories = kcal, total_protein = None, total_carbs = None, total_fats = None\<rparr>"

definition aligner_response :: progress where
  "aligner_response =
     \<lparr>workouts =
        \<lparr>workouts_dates = [''2024-01-01'', ''2024-01-02'', ''2024-01-02'', ''2024-01-03''],
         durations = [30, 45, 45, 0],
         counts = [1, 1, 1, 0]\<rparr>,
      nutrition =
        \<lparr>nutrition_dates = [''2024-01-01'', ''2024-01-02'', ''2024-01-02'', ''2024-01-03''],
         calories = [0, 500, 500, 700],
         protein = [0, 0, 0, 0],
         carbs = [0, 0, 0, 0],
         fats = [0, 0, 0, 0]\<rparr>,
      metrics = \<lparr>metrics_totalWorkouts = 2, avgDuration = 75 / 2, totalCalories = 1200,
                 metrics_avgCalories = 600\<rparr>\<rparr>"

subsection \<open>Shape of a progress response\<close>

text \<open>
  Every array of the response is as long as \<open>workouts.dates\<close>, and the two date arrays
  are equal.
\<close>

definition shape_consistent :: "progress \<Rightarrow> bool" where
  "shape_consistent p =
     (length (durations (workouts p)) = length (workouts_dates (workouts p))
      \<and> length (counts (workouts p)) = length (workouts_dates (workouts p))
      \<and> length (nutrition_dates (nutrition p)) = length (workouts_dates (workouts p))
      \<and> length (calories (nutrition p)) = length (workouts_dates (workouts p))
      \<and> length (protein (nutrition p)) = length (workouts_dates (workouts p))
      \<and> length (carbs (nutrition p)) = length (workouts_dates (workouts p))
      \<and> length (fats (nutrition p)) = length (workouts_dates (workouts p))
      \<and> workouts_dates (workouts p) = nutrition_dates (nutrition p))"

section \<open>Properties\<close>

subsection \<open>The nutrition statements are rejected\<close>

lemma date_is_no_column: "food_logs_timestamp ''date'' = None"
  by (simp add: food_logs_timestamp_def)

text \<open>Whatever the store holds, a statement that uses \<open>food_logs.date\<close> fails.\<close>

lemma food_query_date: "food_query db op ''date'' stmt = Inl (QueryError op)"
  by (simp add: food_query_def date_is_no_column split: option.split)

subsection \<open>GET /stats\<close>

text \<open>
  The calories statement is the third of \<open>calculateUserStats\<close>, so the function throws
  on every store, and the route answers every request with status 500.
\<close>

lemma calculateUserStats_throws: "\<exists>e. calculateUserStats db pf clk userId = Inl e"
  unfolding calculateUserStats_def
  by (cases "pool_connect db";
      cases "client_query db StatsTotal (workout_logs db) (total_workouts_sql userId)";
      cases "client_query db StatsStreak (workout_logs db) (streak_sql userId)")
     (simp_all add: and_then_def food_query_date)

lemma get_stats_500: "get_stats db pf clk userId = Status500 ''Error fetching user stats''"
  using calculateUserStats_throws[of db pf clk userId]
  by (auto simp add: get_stats_def)

text \<open>
  Claim C4, on the code. A user without any rows, on a store that every call reaches,
  gets the same status 500 as a user whose store is unreachable.
\<close>

theorem no_data_answers_500:
  "get_stats (database_of [] [] []) pf clk 7 = Status500 ''Error fetching user stats''
   \<and> get_stats unreachable pf clk 7 = Status500 ''Error fetching user stats''"
  by (simp add: get_stats_500)

text \<open>
  Claim C6, on the code. With 2000 kcal logged on one day (1200 and 800) and nothing
  else, the route answers with status 500: no \<open>avgCalories\<close> is returned.
\<close>

theorem logged_calories_answer_500:
  "get_stats (database_of [] [] two_meals) pf clk 7 = Status500 ''Error fetching user stats''"
  by (rule get_stats_500)


subsection \<open>The streak\<close>

text \<open>
  The outer \<open>SELECT COUNT(*) + 1\<close> counts the rows of the subquery, which \<open>LIMIT 1\<close>
  cuts to at most one: the statement yields 1 without workout days and 2 with any.
\<close>

lemma streak_sql_one_or_two:
  "streak_sql userId wl = (if distinct_dates userId wl = [] then 1 else 2)"
proof -
  have "length (longest_grp gs) = (if gs = [] then 0 else 1)" for gs :: "(pg_date \<times> int) list"
    by (cases gs) (simp_all add: longest_grp_def min_def)
  moreover have "grp_days cd = [] \<longleftrightarrow> cd = []" for cd
    by (simp add: grp_days_def)
  moreover have "consecutive_days ds = [] \<longleftrightarrow> ds = []" for ds
  proof -
    have "length (consecutive_days ds) = length ds"
      by (simp add: consecutive_days_def)
    then show ?thesis
      by (metis length_0_conv)
  qed
  ultimately show ?thesis
    by (simp add: streak_sql_def)
qed

lemma streak_of_four_days: "streak_sql 7 streak_workouts = 2"
  by (simp add: streak_workouts_def workout_def streak_sql_def longest_grp_def grp_days_def
      consecutive_days_def distinct_dates_def of_user_def enumerate_eq_zip)

lemma no_workouts_streak: "streak_sql 7 [] = 1"
  by (simp add: streak_sql_def longest_grp_def grp_days_def consecutive_days_def
      distinct_dates_def of_user_def)

text \<open>
  Claim C1, on the code. For the workout days 2024-01-01, 2024-01-02, 2024-01-03 and
  2024-01-10, whose largest block of consecutive days has length 3, the streak statement
  returns 2 to \<open>calculateUserStats\<close>, and for a user without workouts it returns 1; the
  route then answers with status 500, so no snapshot carries a streak.
\<close>

theorem streak_statement_and_outcome:
  "client_query (database_of streak_workouts [] []) StatsStreak
      (workout_logs (database_of streak_workouts [] [])) (streak_sql 7) = Inr 2
   \<and> client_query (database_of [] [] []) StatsStreak
      (workout_logs (database_of [] [] [])) (streak_sql 7) = Inr 1
   \<and> get_stats (database_of streak_workouts [] []) pf clk 7 = Status500 ''Error fetching user stats''
   \<and> get_stats (database_of [] [] []) pf clk 7 = Status500 ''Error fetching user stats''"
  by (simp add: get_stats_500 client_query_def database_of_def streak_of_four_days
      no_workouts_streak)

subsection \<open>Monthly rollups\<close>

lemma civil_20072: "civil_from_days 20072 = (2024, 12, 15)"
  unfolding civil_from_days_def Let_def by simp

lemma civil_20103: "civil_from_days 20103 = (2025, 1, 15)"
  unfolding civil_from_days_def Let_def by simp

lemma civil_20120: "civil_from_days 20120 = (2025, 2, 1)"
  unfolding civil_from_days_def Let_def by simp

text \<open>Six months before 2025-02-01T00:00:00Z is 2024-08-01T00:00:00Z.\<close>

lemma six_months_before_2025_02_01:
  "minus_months 1738368000000000 6 = 1722470400000000"
  unfolding minus_months_def Let_def
  by (simp add: usecs_per_day_def year_of_def month_of_def mday_of_def civil_20120
      days_in_month_def days_from_civil_def)

text \<open>
  The monthly statement on 2025-02-01, over a workout on 2024-12-15 and one on
  2025-01-15: \<open>ORDER BY month DESC\<close> orders by the month number, December before January.
\<close>

lemma new_year_monthly:
  "monthly_stats_sql 1738368000000000 7 new_year_workouts =
     [\<lparr>month = 12, active_days = 1, total_workouts = 1, total_duration = 30\<rparr>,
      \<lparr>month = 1, active_days = 1, total_workouts = 1, total_duration = 45\<rparr>]"
  unfolding monthly_stats_sql_def Let_def six_months_before_2025_02_01
  by (simp add: new_year_workouts_def workout_def of_user_def timestamp_of_date_def
      usecs_per_day_def month_of_def civil_20072 civil_20103 monthly_row_of_def)

text \<open>
  Claim C8, on the code. On 2025-02-01, with one workout on 2024-12-15 and one on
  2025-01-15, the route answers with status 500: the calories statement fails before the
  monthly statement is run, and no rollup is returned.
\<close>

theorem monthly_rollups_answer_500:
  "get_stats (database_of new_year_workouts [] []) pf (at_time 1738368000000000 0) 7 = Status500 ''Error fetching user stats''"
  by (rule get_stats_500)

subsection \<open>GET /api/progress on a client it has obtained\<close>

text \<open>The body of the \<open>try\<close> returns the empty structure or throws: it never builds a response.\<close>

lemma progress_try_empty_or_thrown:
  "progress_try db clk userId range_value = Inr empty_progress
   \<or> (\<exists>e. progress_try db clk userId range_value = Inl e)"
proof (cases "faults db TablesExist")
  case True
  then show ?thesis
    by (simp add: progress_try_def client_query_def and_then_def)
next
  case no_fault: False
  show ?thesis
  proof (cases "workout_logs db = None \<or> food_logs db = None")
    case True
    with no_fault show ?thesis
      by (auto simp add: progress_try_def client_query_def and_then_def tables_exist_sql_def)
  next
    case False
    then obtain wl fl where tables: "workout_logs db = Some wl" "food_logs db = Some fl"
      by auto
    show ?thesis
    proof (cases "faults db ProgressWorkouts")
      case True
      with no_fault tables show ?thesis
        by (simp add: progress_try_def client_query_def and_then_def tables_exist_sql_def)
    next
      case False
      with no_fault tables show ?thesis
        by (simp add: progress_try_def client_query_def and_then_def tables_exist_sql_def
            food_query_date)
    qed
  qed
qed

lemma get_progress_connected:
  assumes "\<not> faults db Connect"
  shows "get_progress db clk userId range_value = Json empty_progress"
  using assms progress_try_empty_or_thrown[of db clk userId range_value]
  by (auto simp add: get_progress_def pool_connect_def)

lemma database_of_connects: "\<not> faults (database_of wl we fl) Connect"
  by (simp add: database_of_def)

subsection \<open>Dates of the examples\<close>

lemma civil_19723: "civil_from_days 19723 = (2024, 1, 1)"
  unfolding civil_from_days_def Let_def by simp

lemma civil_19724: "civil_from_days 19724 = (2024, 1, 2)"
  unfolding civil_from_days_def Let_def by simp

lemma civil_19725: "civil_from_days 19725 = (2024, 1, 3)"
  unfolding civil_from_days_def Let_def by simp

lemma civil_19727: "civil_from_days 19727 = (2024, 1, 5)"
  unfolding civil_from_days_def Let_def by simp

lemma iso_19723: "toISOString_day (JsDate i 19723) = ''2024-01-01''"
  by (simp add: toISOString_day_def iso_year_def year_of_def month_of_def mday_of_def
      two_digits_def padStart_def decimal.simps digit_def toString_def js_valid_def
      toString_year_def day_name_def month_name_def weekday_of_def civil_19723 civil_19724
      civil_19725 civil_19727)

lemma iso_19724: "toISOString_day (JsDate i 19724) = ''2024-01-02''"
  by (simp add: toISOString_day_def iso_year_def year_of_def month_of_def mday_of_def
      two_digits_def padStart_def decimal.simps digit_def toString_def js_valid_def
      toString_year_def day_name_def month_name_def weekday_of_def civil_19723 civil_19724
      civil_19725 civil_19727)

lemma iso_19725: "toISOString_day (JsDate i 19725) = ''2024-01-03''"
  by (simp add: toISOString_day_def iso_year_def year_of_def month_of_def mday_of_def
      two_digits_def padStart_def decimal.simps digit_def toString_def js_valid_def
      toString_year_def day_name_def month_name_def weekday_of_def civil_19723 civil_19724
      civil_19725 civil_19727)

lemma iso_19727: "toISOString_day (JsDate i 19727) = ''2024-01-05''"
  by (simp add: toISOString_day_def iso_year_def year_of_def month_of_def mday_of_def
      two_digits_def padStart_def decimal.simps digit_def toString_def js_valid_def
      toString_year_def day_name_def month_name_def weekday_of_def civil_19723 civil_19724
      civil_19725 civil_19727)

lemma str_19723: "toString (JsDate i 19723) =
    ''Mon Jan 01 2024 00:00:00 GMT+0000 (Coordinated Universal Time)''"
  by (simp add: toISOString_day_def iso_year_def year_of_def month_of_def mday_of_def
      two_digits_def padStart_def decimal.simps digit_def toString_def js_valid_def
      toString_year_def day_name_def month_name_def weekday_of_def civil_19723 civil_19724
      civil_19725 civil_19727)

lemma str_19724: "toString (JsDate i 19724) =
    ''Tue Jan 02 2024 00:00:00 GMT+0000 (Coordinated Universal Time)''"
  by (simp add: toISOString_day_def iso_year_def year_of_def month_of_def mday_of_def
      two_digits_def padStart_def decimal.simps digit_def toString_def js_valid_def
      toString_year_def day_name_def month_name_def weekday_of_def civil_19723 civil_19724
      civil_19725 civil_19727)

lemma str_19725: "toString (JsDate i 19725) =
    ''Wed Jan 03 2024 00:00:00 GMT+0000 (Coordinated Universal Time)''"
  by (simp add: toISOString_day_def iso_year_def year_of_def month_of_def mday_of_def
      two_digits_def padStart_def decimal.simps digit_def toString_def js_valid_def
      toString_year_def day_name_def month_name_def weekday_of_def civil_19723 civil_19724
      civil_19725 civil_19727)

lemma str_19727: "toString (JsDate i 19727) =
    ''Fri Jan 05 2024 00:00:00 GMT+0000 (Coordinated Universal Time)''"
  by (simp add: toISOString_day_def iso_year_def year_of_def month_of_def mday_of_def
      two_digits_def padStart_def decimal.simps digit_def toString_def js_valid_def
      toString_year_def day_name_def month_name_def weekday_of_def civil_19723 civil_19724
      civil_19725 civil_19727)

subsection \<open>The date axis\<close>

lemma same_day_workouts_sql:
  "progress_workouts_sql 1704326400000000 30 7 same_day_workouts = [(19724, 1, 45)]"
  unfolding progress_workouts_sql_def Let_def same_day_workouts_def
  by (simp add: of_user_def workout_def timestamp_of_date_def minus_days_def
      usecs_per_day_def date_of_timestamp_def sql_sum_def non_null_def)

lemma monday_friday_workouts_sql:
  "progress_workouts_sql 1704499200000000 30 7 monday_friday_workouts =
     [(19723, 1, 30), (19727, 1, 60)]"
  unfolding progress_workouts_sql_def Let_def monday_friday_workouts_def
  by (simp add: of_user_def workout_def timestamp_of_date_def minus_days_def
      usecs_per_day_def date_of_timestamp_def sql_sum_def non_null_def)

text \<open>
  Claim C2, on the code. On 2024-01-04, for a user with a workout and a meal on
  2024-01-02, the workouts statement returns the row of that day, the nutrition
  statement is rejected, and the response is the empty structure: the axis is empty
  although a day with data lies in the range.
\<close>

theorem date_axis_is_empty:
  "client_query (database_of same_day_workouts [] same_day_meals) ProgressWorkouts
      (workout_logs (database_of same_day_workouts [] same_day_meals))
      (progress_workouts_sql 1704326400000000 (timeFilter Absent) 7) = Inr [(19724, 1, 45)]
   \<and> get_progress (database_of same_day_workouts [] same_day_meals)
        (at_time 1704326400000000 0) 7 Absent
     = Json \<lparr>workouts = \<lparr>workouts_dates = [], durations = [], counts = []\<rparr>,
             nutrition = \<lparr>nutrition_dates = [], calories = [], protein = [], carbs = [],
                          fats = []\<rparr>,
             metrics = \<lparr>metrics_totalWorkouts = 0, avgDuration = 0, totalCalories = 0,
                        metrics_avgCalories = 0\<rparr>\<rparr>"
proof
  show "client_query (database_of same_day_workouts [] same_day_meals) ProgressWorkouts
      (workout_logs (database_of same_day_workouts [] same_day_meals))
      (progress_workouts_sql 1704326400000000 (timeFilter Absent) 7) = Inr [(19724, 1, 45)]"
    by (simp add: client_query_def database_of_def timeFilter_def same_day_workouts_sql)
next
  show "get_progress (database_of same_day_workouts [] same_day_meals)
        (at_time 1704326400000000 0) 7 Absent
     = Json \<lparr>workouts = \<lparr>workouts_dates = [], durations = [], counts = []\<rparr>,
             nutrition = \<lparr>nutrition_dates = [], calories = [], protein = [], carbs = [],
                          fats = []\<rparr>,
             metrics = \<lparr>metrics_totalWorkouts = 0, avgDuration = 0, totalCalories = 0,
                        metrics_avgCalories = 0\<rparr>\<rparr>"
    using get_progress_connected[OF database_of_connects]
    by (simp add: empty_progress_def)
qed

text \<open>
  Behind the rejected statement, the code that builds the axis. The driver gives every
  row its own \<open>Date\<close> object, so the set built from the two results drops nothing, and
  the axis would have one entry for each row of either result.
\<close>

lemma new_Set_distinct: "distinct xs \<Longrightarrow> new_Set xs = xs"
proof (induction xs)
  case Nil
  show ?case by simp
next
  case (Cons x xs)
  then have "new_Set xs = xs" and "\<forall>y \<in> set xs. y \<noteq> x"
    by auto
  then have "filter (\<lambda>y. y \<noteq> x) (new_Set xs) = xs"
    by simp
  then show ?case by simp
qed

lemma length_sort_insert: "length (sort_insert x ys) = Suc (length ys)"
  by (induction ys) simp_all

lemma length_js_sort: "length (js_sort xs) = length xs"
  by (induction xs) (simp_all add: js_sort_def length_sort_insert)

lemma parse_rows_Nil: "parse_rows base [] = []"
  by (simp add: parse_rows_def)

lemma parse_rows_Cons:
  "parse_rows base (x # xs) = (JsDate base (fst x), snd x) # parse_rows (Suc base) xs"
  by (simp add: parse_rows_def case_prod_beta)

lemma parse_rows_refs:
  "map date_ref (map fst (parse_rows base rows)) = [base..<base + length rows]"
proof (induction rows arbitrary: base)
  case Nil
  show ?case by (simp add: parse_rows_Nil)
next
  case (Cons x xs)
  have "map date_ref (map fst (parse_rows base (x # xs)))
        = base # map date_ref (map fst (parse_rows (Suc base) xs))"
    by (simp only: parse_rows_Cons list.map fst_conv js_date.sel)
  also have "\<dots> = base # [Suc base..<Suc base + length xs]"
    by (simp only: Cons.IH)
  also have "\<dots> = base # [Suc base..<base + length (x # xs)]"
    by simp
  also have "\<dots> = [base..<base + length (x # xs)]"
    by (rule upt_conv_Cons[symmetric]) simp
  finally show ?case .
qed

lemma fresh_objects_distinct:
  "distinct (map fst (parse_rows 0 w) @ map fst (parse_rows (length w) n))"
proof -
  have "map date_ref (map fst (parse_rows 0 w) @ map fst (parse_rows (length w) n))
        = map date_ref (map fst (parse_rows 0 w)) @ map date_ref (map fst (parse_rows (length w) n))"
    by (simp only: map_append)
  also have "\<dots> = [0..<0 + length w] @ [length w..<length w + length n]"
    by (simp only: parse_rows_refs)
  also have "\<dots> = [0..<length w] @ [length w..<length w + length n]"
    by simp
  also have "\<dots> = [0..<length w + length n]"
    by (rule upt_add_eq_append[symmetric]) simp
  finally have "distinct (map date_ref (map fst (parse_rows 0 w) @ map fst (parse_rows (length w) n)))"
    by (simp only: distinct_upt)
  then show ?thesis
    by (simp only: distinct_map)
qed

lemma axis_one_entry_per_row:
  "length (shared_dates (parse_rows 0 w) (parse_rows (length w) n)) = length w + length n"
  unfolding shared_dates_def length_js_sort new_Set_distinct[OF fresh_objects_distinct]
  by (simp add: parse_rows_def)

text \<open>
  \<open>build_response\<close> on one workout row and one nutrition row of the same day, and on the
  workout rows of a Monday and of the Friday after it.
\<close>

lemma same_day_dates:
  "shared_dates [(JsDate 0 19724, 1, 45)] [(JsDate 1 19724, no_macros (Some 500))]
   = [JsDate 0 19724, JsDate 1 19724]"
  by (simp add: shared_dates_def js_sort_def str_19724)

lemma same_day_build:
  "build_response [(JsDate 0 19724, 1, 45)] [(JsDate 1 19724, no_macros (Some 500))]
   = Inr \<lparr>workouts =
            \<lparr>workouts_dates = [''2024-01-02'', ''2024-01-02''],
             durations = [45, 45],
             counts = [1, 1]\<rparr>,
          nutrition =
            \<lparr>nutrition_dates = [''2024-01-02'', ''2024-01-02''],
             calories = [500, 500],
             protein = [0, 0],
             carbs = [0, 0],
             fats = [0, 0]\<rparr>,
          metrics = \<lparr>metrics_totalWorkouts = 1, avgDuration = 45, totalCalories = 500,
                     metrics_avgCalories = 500\<rparr>\<rparr>"
  unfolding build_response_def same_day_dates Let_def
  by (simp add: js_valid_def find_row_def iso_19724 calc_metrics_def no_macros_def coalesce_def)

lemma monday_friday_dates:
  "shared_dates [(JsDate 0 19723, 1, 30), (JsDate 1 19727, 1, 60)] []
   = [JsDate 1 19727, JsDate 0 19723]"
  by (simp add: shared_dates_def js_sort_def str_19723 str_19727)

lemma monday_friday_build:
  "build_response [(JsDate 0 19723, 1, 30), (JsDate 1 19727, 1, 60)] []
   = Inr \<lparr>workouts =
            \<lparr>workouts_dates = [''2024-01-05'', ''2024-01-01''],
             durations = [60, 30],
             counts = [1, 1]\<rparr>,
          nutrition =
            \<lparr>nutrition_dates = [''2024-01-05'', ''2024-01-01''],
             calories = [0, 0],
             protein = [0, 0],
             carbs = [0, 0],
             fats = [0, 0]\<rparr>,
          metrics = \<lparr>metrics_totalWorkouts = 2, avgDuration = 45, totalCalories = 0,
                     metrics_avgCalories = 0\<rparr>\<rparr>"
  unfolding build_response_def monday_friday_dates Let_def
  by (simp add: js_valid_def find_row_def iso_19723 iso_19727 calc_metrics_def)

subsection \<open>The series aligner on its example\<close>

lemma aligner_workouts_sql:
  "progress_workouts_sql 1704326400000000 30 7 aligner_workouts = [(19723, 1, 30), (19724, 1, 45)]"
  unfolding progress_workouts_sql_def Let_def aligner_workouts_def
  by (simp add: of_user_def workout_def timestamp_of_date_def minus_days_def
      usecs_per_day_def date_of_timestamp_def sql_sum_def non_null_def)

text \<open>
  Claim C5, on the code. On 2024-01-04, for workouts on 2024-01-01 and 2024-01-02 and
  meals on 2024-01-02 and 2024-01-03, the workouts statement returns its two days, the
  nutrition statement is rejected, and the response is the empty structure: the axis is
  not [2024-01-01, 2024-01-02, 2024-01-03], and there is no index at which a count or a
  calorie value could be 0.
\<close>

theorem aligner_example_is_empty:
  "client_query (database_of aligner_workouts [] aligner_meals) ProgressWorkouts
      (workout_logs (database_of aligner_workouts [] aligner_meals))
      (progress_workouts_sql 1704326400000000 (timeFilter Absent) 7)
     = Inr [(19723, 1, 30), (19724, 1, 45)]
   \<and> get_progress (database_of aligner_workouts [] aligner_meals)
        (at_time 1704326400000000 0) 7 Absent
     = Json \<lparr>workouts = \<lparr>workouts_dates = [], durations = [], counts = []\<rparr>,
             nutrition = \<lparr>nutrition_dates = [], calories = [], protein = [], carbs = [],
                          fats = []\<rparr>,
             metrics = \<lparr>metrics_totalWorkouts = 0, avgDuration = 0, totalCalories = 0,
                        metrics_avgCalories = 0\<rparr>\<rparr>"
proof
  show "client_query (database_of aligner_workouts [] aligner_meals) ProgressWorkouts
      (workout_logs (database_of aligner_workouts [] aligner_meals))
      (progress_workouts_sql 1704326400000000 (timeFilter Absent) 7)
     = Inr [(19723, 1, 30), (19724, 1, 45)]"
    by (simp add: client_query_def database_of_def timeFilter_def aligner_workouts_sql)
next
  show "get_progress (database_of aligner_workouts [] aligner_meals)
        (at_time 1704326400000000 0) 7 Absent
     = Json \<lparr>workouts = \<lparr>workouts_dates = [], durations = [], counts = []\<rparr>,
             nutrition = \<lparr>nutrition_dates = [], calories = [], protein = [], carbs = [],
                          fats = []\<rparr>,
             metrics = \<lparr>metrics_totalWorkouts = 0, avgDuration = 0, totalCalories = 0,
                        metrics_avgCalories = 0\<rparr>\<rparr>"
    using get_progress_connected[OF database_of_connects]
    by (simp add: empty_progress_def)
qed

text \<open>
  Behind the rejected statement: \<open>build_response\<close> on the rows the two statements
  would return for the example, and the zero fill at an index of the axis whose day no
  row of a source carries.
\<close>

lemma aligner_dates:
  "shared_dates [(JsDate 0 19723, 1, 30), (JsDate 1 19724, 1, 45)]
                [(JsDate 2 19724, no_macros (Some 500)), (JsDate 3 19725, no_macros (Some 700))]
   = [JsDate 0 19723, JsDate 1 19724, JsDate 2 19724, JsDate 3 19725]"
  by (simp add: shared_dates_def js_sort_def str_19723 str_19724 str_19725)

lemma aligner_build:
  "build_response [(JsDate 0 19723, 1, 30), (JsDate 1 19724, 1, 45)]
                [(JsDate 2 19724, no_macros (Some 500)), (JsDate 3 19725, no_macros (Some 700))]
   = Inr aligner_response"
  unfolding build_response_def aligner_dates Let_def
  by (simp add: js_valid_def find_row_def iso_19723 iso_19724 iso_19725 calc_metrics_def
      no_macros_def coalesce_def aligner_response_def)

lemma zero_fill_workouts:
  assumes "build_response wrows nrows = Inr p"
    and "i < length (shared_dates wrows nrows)"
    and "\<forall>r \<in> set wrows. toISOString_day (fst r) \<noteq> toISOString_day (shared_dates wrows nrows ! i)"
  shows "durations (workouts p) ! i = 0 \<and> counts (workouts p) ! i = 0"
proof -
  have "find_row wrows (shared_dates wrows nrows ! i) = None"
    using assms(3) by (fastforce simp add: find_row_def find_None_iff)
  then show ?thesis
    using assms(1,2) unfolding build_response_def Let_def
    by (auto split: if_splits)
qed

lemma zero_fill_nutrition:
  assumes "build_response wrows nrows = Inr p"
    and "i < length (shared_dates wrows nrows)"
    and "\<forall>r \<in> set nrows. toISOString_day (fst r) \<noteq> toISOString_day (shared_dates wrows nrows ! i)"
  shows "calories (nutrition p) ! i = 0 \<and> protein (nutrition p) ! i = 0
         \<and> carbs (nutrition p) ! i = 0 \<and> fats (nutrition p) ! i = 0"
proof -
  have "find_row nrows (shared_dates wrows nrows ! i) = None"
    using assms(3) by (fastforce simp add: find_row_def find_None_iff)
  then show ?thesis
    using assms(1,2) unfolding build_response_def Let_def
    by (auto split: if_splits)
qed

subsection \<open>Shape of every response\<close>

lemma build_response_shape:
  assumes "build_response wrows nrows = Inr p"
  shows "length (workouts_dates (workouts p)) = length (shared_dates wrows nrows)
    \<and> length (durations (workouts p)) = length (shared_dates wrows nrows)
    \<and> length (counts (workouts p)) = length (shared_dates wrows nrows)
    \<and> length (nutrition_dates (nutrition p)) = length (shared_dates wrows nrows)
    \<and> length (calories (nutrition p)) = length (shared_dates wrows nrows)
    \<and> length (protein (nutrition p)) = length (shared_dates wrows nrows)
    \<and> length (carbs (nutrition p)) = length (shared_dates wrows nrows)
    \<and> length (fats (nutrition p)) = length (shared_dates wrows nrows)
    \<and> workouts_dates (workouts p) = nutrition_dates (nutrition p)"
  using assms unfolding build_response_def Let_def
  by (auto split: if_splits)

lemma empty_progress_shape: "shape_consistent empty_progress"
  by (simp add: shape_consistent_def empty_progress_def)

lemma progress_try_cases:
  assumes "progress_try db clk userId range_value = Inr p"
  shows "p = empty_progress \<or> (\<exists>wrows nrows. build_response wrows nrows = Inr p)"
  using assms unfolding progress_try_def and_then_def
  by (auto split: sum.splits if_splits prod.splits)

lemma get_progress_cases:
  assumes "get_progress db clk userId range_value = Json p"
  shows "p = empty_progress \<or> (\<exists>wrows nrows. build_response wrows nrows = Inr p)"
  using assms progress_try_cases[of db clk userId range_value p]
  by (auto simp add: get_progress_def split: sum.splits)

text \<open>
  Claim C10. In every response of GetProgress the eight arrays have the same length and
  \<open>workouts.dates\<close> equals \<open>nutrition.dates\<close>.
\<close>

theorem progress_shape_consistent:
  assumes "get_progress db clk userId range_value = Json p"
  shows "shape_consistent p"
proof -
  from get_progress_cases[OF assms] show ?thesis
  proof
    assume "p = empty_progress"
    then show ?thesis by (simp add: empty_progress_shape)
  next
    assume "\<exists>wrows nrows. build_response wrows nrows = Inr p"
    then obtain wrows nrows where "build_response wrows nrows = Inr p"
      by blast
    from build_response_shape[OF this] show ?thesis
      by (simp add: shape_consistent_def)
  qed
qed

theorem progress_shape_consistent_witness:
  "get_progress (database_of aligner_workouts [] aligner_meals) (at_time 1704326400000000 0) 7
     Absent = Json empty_progress
   \<and> shape_consistent empty_progress
   \<and> length (workouts_dates (workouts empty_progress)) = 0"
proof -
  have response: "get_progress (database_of aligner_workouts [] aligner_meals)
      (at_time 1704326400000000 0) 7 Absent = Json empty_progress"
    by (rule get_progress_connected[OF database_of_connects])
  show ?thesis
    using response progress_shape_consistent[OF response]
    by (simp add: empty_progress_def)
qed

subsection \<open>The range keyword\<close>

text \<open>
  Claim C9. For every value of \<open>range\<close> other than "week", "month" and "year" (a
  missing or structured value among them), the handler leaves exactly what it leaves for
  "month": the filter is the 30-day one, and no outcome is an error status.
\<close>

theorem unrecognized_range_is_month:
  assumes "range_value \<notin> {Text ''week'', Text ''month'', Text ''year''}"
  shows "timeFilter range_value = 30
    \<and> get_progress db clk userId range_value = get_progress db clk userId (Text ''month'')
    \<and> get_progress db clk userId range_value \<noteq> Status500 message"
proof -
  have days: "timeFilter range_value = 30"
    using assms by (cases range_value) (simp_all add: timeFilter_def)
  have "timeFilter range_value = timeFilter (Text ''month'')"
    using days by (simp add: timeFilter_def)
  then have same: "get_progress db clk userId range_value = get_progress db clk userId (Text ''month'')"
    unfolding get_progress_def progress_try_def by (simp only:)
  have "get_progress db clk userId range_value \<noteq> Status500 message"
    by (simp add: get_progress_def split: sum.split)
  with days same show ?thesis by simp
qed

theorem unrecognized_range_is_month_witness:
  "Text ''decade'' \<notin> {Text ''week'', Text ''month'', Text ''year''}
   \<and> timeFilter (Text ''decade'') = 30
   \<and> get_progress (database_of aligner_workouts [] aligner_meals) (at_time 1704326400000000 0) 7
        (Text ''decade'')
     = get_progress (database_of aligner_workouts [] aligner_meals) (at_time 1704326400000000 0) 7
        (Text ''month'')"
proof -
  have h: "Text ''decade'' \<notin> {Text ''week'', Text ''month'', Text ''year''}"
    by simp
  show ?thesis
    using h unrecognized_range_is_month[OF h] by simp
qed

subsection \<open>The connection\<close>

text \<open>
  Claim C3, on the code. When the pool cannot hand out a client, the handler's promise is
  rejected with the connection error before the \<open>try\<close> is entered: nothing is sent, not
  the empty structure either.
\<close>

theorem rejected_connection_escapes_the_catch:
  "get_progress unreachable clk userId range_value = Rejected ConnectionError"
  by (simp add: get_progress_def pool_connect_def unreachable_def)

end
